theory Spec2Isabelle
  imports Main
begin

section \<open>Python string primitives used by the addon\<close>

text \<open>
  The addon \<^verbatim>\<open>azure_ad_integration\<close> works on Python \<^verbatim>\<open>str\<close> values. A \<open>char\<close> of HOL
  is one byte, read here as one code point of Latin-1 (0..255); the model therefore covers
  the names, domains and addresses written in that range. The three predicates below are
  Python's \<^verbatim>\<open>str.isspace\<close>, \<^verbatim>\<open>str.lower\<close>, \<^verbatim>\<open>str.strip()\<close> and \<^verbatim>\<open>str.split()\<close>
  restricted to it.
\<close>

definition py_isspace :: "char \<Rightarrow> bool" where
  "py_isspace c =
     (let n = (of_char c :: nat)
      in (9 \<le> n \<and> n \<le> 13) \<or> (28 \<le> n \<and> n \<le> 32) \<or> n = 133 \<or> n = 160)"

definition lower_char :: "char \<Rightarrow> char" where
  "lower_char c =
     (let n = (of_char c :: nat)
      in if (65 \<le> n \<and> n \<le> 90) \<or> (192 \<le> n \<and> n \<le> 214) \<or> (216 \<le> n \<and> n \<le> 222)
         then char_of (n + 32) else c)"

definition py_lower :: "string \<Rightarrow> string" where
  "py_lower s = map lower_char s"

definition py_strip :: "string \<Rightarrow> string" where
  "py_strip s = rev (dropWhile py_isspace (rev (dropWhile py_isspace s)))"

text \<open>
  \<^verbatim>\<open>str.split()\<close> without an argument scans the string once: runs of whitespace separate
  the parts and no part is empty. \<open>split_scan cs w\<close> is the scan with the part \<open>w\<close> being
  collected.
\<close>

fun split_scan :: "string \<Rightarrow> string \<Rightarrow> string list" where
  "split_scan [] w = (if w = [] then [] else [w])"
| "split_scan (c # cs) w =
     (if py_isspace c
      then (if w = [] then split_scan cs [] else w # split_scan cs [])
      else split_scan cs (w @ [c]))"

definition py_split :: "string \<Rightarrow> string list" where
  "py_split s = split_scan s []"

text \<open>\<^verbatim>\<open>str(count)\<close> for a non-negative integer: its decimal digits.\<close>

definition digit_char :: "nat \<Rightarrow> char" where
  "digit_char d = char_of (48 + d)"

fun py_str :: "nat \<Rightarrow> string" where
  "py_str n = (if n < 10 then [digit_char n] else py_str (n div 10) @ [digit_char (n mod 10)])"

declare py_str.simps [simp del]

text \<open>\<^verbatim>\<open>s.replace(' ', '_').replace('&', 'and')\<close>, one character at a time.\<close>

definition replace_space :: "string \<Rightarrow> string" where
  "replace_space s = map (\<lambda>c. if c = CHR '' '' then CHR ''_'' else c) s"

definition replace_amp :: "string \<Rightarrow> string" where
  "replace_amp s = concat (map (\<lambda>c. if c = CHR ''&'' then ''and'' else [c]) s)"

section \<open>Exceptions and the derivation of the base address\<close>

text \<open>
  The exceptions the two model files can meet: \<^verbatim>\<open>parts[0]\<close> on an empty list, a transport
  error of \<^verbatim>\<open>requests\<close>, \<^verbatim>\<open>raise_for_status()\<close> on a 4xx/5xx status, a response body that
  \<^verbatim>\<open>.json()\<close> (or the \<^verbatim>\<open>.get\<close> on it) cannot read, and whatever the collaborator
  \<^verbatim>\<open>create_dl()\<close> raises.
\<close>

datatype exn = IndexError | RequestException | HTTPError int | BodyError | CollaboratorError string

text \<open>
  Lines 50-53 of \<^verbatim>\<open>hr_employee.py\<close>:
  \<^verbatim>\<open>
    parts = self.name.strip().lower().split()
    first = parts[0]
    last = parts[-1] if len(parts) > 1 else first
    base = f"{first}.{last}"
  \<close>
  and \<^verbatim>\<open>email\<close> is the base, an at sign and the domain.
\<close>

definition derive_base :: "string \<Rightarrow> exn + string" where
  "derive_base name =
     (let parts = py_split (py_lower (py_strip name))
      in case parts of
           [] \<Rightarrow> Inl IndexError
         | first # rest \<Rightarrow>
             (let lst = (if length parts > 1 then last parts else first)
              in Inr (first @ ''.'' @ lst)))"

definition base_email :: "string \<Rightarrow> string \<Rightarrow> string" where
  "base_email base domain = base @ ''@'' @ domain"

section \<open>Records, configuration and the remote directory\<close>

text \<open>
  The Odoo records. \<^verbatim>\<open>name\<close> is the field of both models; it is \<open>emp_name\<close> and
  \<open>dept_name\<close> here, since HOL wants the two fields apart. An unset \<^verbatim>\<open>Char\<close> or
  \<^verbatim>\<open>Many2one\<close> field (Odoo's \<^verbatim>\<open>False\<close>) is \<open>None\<close>. The employee record is used
  with its extension slot free, which stands for every other field of \<^verbatim>\<open>hr.employee\<close>.
\<close>

record department =
  dept_name :: string
  azure_dl_email :: "string option"
  azure_dl_id :: "string option"

record employee =
  emp_name :: string
  department_id :: "department option"
  azure_user_id :: "string option"
  azure_email :: "string option"
  work_email :: "string option"

text \<open>
  \<^verbatim>\<open>ir.config_parameter\<close>: \<^verbatim>\<open>get_param\<close> gives \<^verbatim>\<open>False\<close> for a missing key. Python's
  truth value of such a value is \<open>truthy\<close>, and \<open>py_format\<close> is what an f-string prints
  for it.
\<close>

record config =
  azure_tenant_id :: "string option"
  azure_client_id :: "string option"
  azure_client_secret :: "string option"
  azure_domain :: "string option"

fun truthy :: "string option \<Rightarrow> bool" where
  "truthy None = False"
| "truthy (Some s) = (s \<noteq> [])"

fun py_format :: "string option \<Rightarrow> string" where
  "py_format None = ''False''"
| "py_format (Some s) = s"

text \<open>The JSON body of the account-creation call, as far as the code can read it.\<close>

record payload =
  accountEnabled :: bool
  displayName :: string
  mailNickname :: string
  userPrincipalName :: string
  usageLocation :: string
  forceChangePasswordNextSignIn :: bool
  password :: string

text \<open>
  Every \<^verbatim>\<open>requests\<close> call of the addon, with the bearer token of its header where it has
  one, and the \<^verbatim>\<open>timeout=\<close> argument the call site passes (\<open>None\<close> when it passes none).
\<close>

datatype request =
    Token_request "string option" "string option" "string option"
  | Lookup_request "string option" string
  | Create_request "string option" payload
  | Search_request "string option" string
  | Member_request "string option" string string

datatype call = Call (request_of: request) (timeout: "nat option")

text \<open>
  What a call gives back: the transport raises, or a response with a status code and a
  body. \<open>Unreadable\<close> is a body on which \<^verbatim>\<open>.json()\<close>, or the \<^verbatim>\<open>.get\<close> that follows it,
  raises; \<open>Json v\<close> is a body read as the value \<open>v\<close> the caller looks for: the
  \<^verbatim>\<open>access_token\<close> (if any) of a token response, the \<^verbatim>\<open>value\<close> list of a group search
  (empty when the key is missing), the \<^verbatim>\<open>id\<close> and the \<^verbatim>\<open>error.message\<close> of a creation
  response. The message is looked up with a default, \<^verbatim>\<open>.get('message', 'Unknown error')\<close>,
  so a key that is missing and a key that holds JSON \<^verbatim>\<open>null\<close> are told apart: the first
  is logged as the default, the second as \<^verbatim>\<open>None\<close>.
\<close>

datatype 'a body = Unreadable | Json 'a

datatype 'a reply = Raises | Reply int "'a body"

datatype message_field = Missing | Null | Text string

record created =
  resp_id :: "string option"
  resp_error :: message_field

record group =
  mail :: "string option"
  group_id :: "string option"

record remote =
  token_endpoint :: "string option \<Rightarrow> string option \<Rightarrow> string option \<Rightarrow> (string option) reply"
  user_lookup :: "string option \<Rightarrow> string \<Rightarrow> unit reply"
  user_create :: "string option \<Rightarrow> payload \<Rightarrow> created reply"
  group_search :: "string option \<Rightarrow> string \<Rightarrow> (group list) reply"
  member_add :: "string option \<Rightarrow> string \<Rightarrow> string \<Rightarrow> unit reply"

section \<open>hr\_employee.py: \_create\_azure\_email\<close>

text \<open>
  The function returns nothing; what a run did is told by the log line it ends on, which
  is the \<open>outcome\<close>. The model returns the employee record as the run leaves it, the
  calls issued in order, and the outcome.
\<close>

datatype outcome =
    Credentials_missing
  | Token_missing
  | Lookup_error int
  | Created string
  | Create_failed string
  | Exception_logged exn

text \<open>
  Step 4, lines 85-103: the loop \<^verbatim>\<open>while count < 100\<close>. It ends by \<^verbatim>\<open>break\<close> on a 404, by
  \<^verbatim>\<open>return\<close> on a status other than 200 and 404 (\<open>Inl\<close>), or when \<^verbatim>\<open>count\<close> reaches 100;
  in the first and the last case the run goes on to step 5 with \<^verbatim>\<open>unique_email\<close> (\<open>Inr\<close>).
\<close>

function probe ::
  "remote \<Rightarrow> string option \<Rightarrow> string \<Rightarrow> string \<Rightarrow> nat \<Rightarrow> string \<Rightarrow> call list \<times> (outcome + string)"
where
  "probe R token base domain count unique_email =
     (if count < 100
      then (case user_lookup R token unique_email of
              Raises \<Rightarrow>
                ([Call (Lookup_request token unique_email) (Some 30)],
                 Inl (Exception_logged RequestException))
            | Reply status b \<Rightarrow>
                if status = 404
                then ([Call (Lookup_request token unique_email) (Some 30)], Inr unique_email)
                else if status = 200
                then (case probe R token base domain (count + 1)
                             (base @ py_str (count + 1) @ ''@'' @ domain) of
                        (calls, r) \<Rightarrow>
                          (Call (Lookup_request token unique_email) (Some 30) # calls, r))
                else ([Call (Lookup_request token unique_email) (Some 30)],
                      Inl (Lookup_error status)))
      else ([], Inr unique_email))"
  by pat_completeness auto
termination
  by (relation "measure (\<lambda>(R, token, base, domain, count, unique_email). 100 - count)") auto

declare probe.simps [simp del]

text \<open>
  The candidates of the loop, numbered by \<^verbatim>\<open>count\<close>: line 86 gives the first one, line 99
  every later one.
\<close>

definition candidate :: "string \<Rightarrow> string \<Rightarrow> nat \<Rightarrow> string" where
  "candidate base domain i =
     (if i = 1 then base_email base domain else base @ py_str i @ ''@'' @ domain)"

text \<open>The number a string of decimal digits stands for.\<close>

definition digits_value :: "string \<Rightarrow> nat" where
  "digits_value s = foldl (\<lambda>a c. 10 * a + (of_char c - 48)) 0 s"

text \<open>Steps 5 and 6, lines 108-138: the creation call and the writes on a 201.\<close>

definition new_user :: "string \<Rightarrow> string \<Rightarrow> payload" where
  "new_user name unique_email =
     \<lparr>accountEnabled = True,
      displayName = name,
      mailNickname = takeWhile (\<lambda>c. c \<noteq> CHR ''@'') unique_email,
      userPrincipalName = unique_email,
      usageLocation = ''AE'',
      forceChangePasswordNextSignIn = True,
      password = ''Welcome@123''\<rparr>"

definition save_result ::
  "remote \<Rightarrow> string option \<Rightarrow> string \<Rightarrow> 'a employee_scheme
     \<Rightarrow> 'a employee_scheme \<times> call list \<times> outcome"
where
  "save_result R token unique_email emp =
     (let p = new_user (emp_name emp) unique_email;
          c = Call (Create_request token p) (Some 30)
      in case user_create R token p of
           Raises \<Rightarrow> (emp, [c], Exception_logged RequestException)
         | Reply status b \<Rightarrow>
             if status = 201
             then (case b of
                     Unreadable \<Rightarrow> (emp, [c], Exception_logged BodyError)
                   | Json user_data \<Rightarrow>
                       (emp\<lparr>azure_email := Some unique_email, work_email := Some unique_email\<rparr>,
                        [c], Created unique_email))
             else (case b of
                     Unreadable \<Rightarrow> (emp, [c], Exception_logged BodyError)
                   | Json err \<Rightarrow>
                       (emp, [c],
                        Create_failed (case resp_error err of
                                         Missing \<Rightarrow> ''Unknown error''
                                       | Null \<Rightarrow> ''None''
                                       | Text m \<Rightarrow> m))))"

text \<open>
  The whole of \<^verbatim>\<open>_create_azure_email\<close> (an Isabelle name cannot start with an underscore).
  \<^verbatim>\<open>raise_for_status()\<close> raises on a status from 400 to 599.
\<close>

definition create_azure_email ::
  "remote \<Rightarrow> config \<Rightarrow> 'a employee_scheme \<Rightarrow> 'a employee_scheme \<times> call list \<times> outcome"
where
  "create_azure_email R cfg emp =
     (let tenant_id = azure_tenant_id cfg; client_id = azure_client_id cfg;
          client_secret = azure_client_secret cfg; domain = azure_domain cfg
      in if \<not> (truthy tenant_id \<and> truthy client_id \<and> truthy client_secret \<and> truthy domain)
         then (emp, [], Credentials_missing)
         else
           (case derive_base (emp_name emp) of
              Inl e \<Rightarrow> (emp, [], Exception_logged e)
            | Inr base \<Rightarrow>
                (let email = base_email base (py_format domain);
                     c = Call (Token_request tenant_id client_id client_secret) (Some 30)
                 in case token_endpoint R tenant_id client_id client_secret of
                      Raises \<Rightarrow> (emp, [c], Exception_logged RequestException)
                    | Reply status b \<Rightarrow>
                        if 400 \<le> status \<and> status < 600
                        then (emp, [c], Exception_logged (HTTPError status))
                        else
                          (case b of
                             Unreadable \<Rightarrow> (emp, [c], Exception_logged BodyError)
                           | Json token \<Rightarrow>
                               if \<not> truthy token then (emp, [c], Token_missing)
                               else
                                 (case probe R token base (py_format domain) 1 email of
                                    (calls, Inl out) \<Rightarrow> (emp, c # calls, out)
                                  | (calls, Inr unique_email) \<Rightarrow>
                                      (case save_result R token unique_email emp of
                                         (emp', calls', out) \<Rightarrow>
                                           (emp', c # calls @ calls', out)))))))"

section \<open>hr\_employee.py: \_add\_to\_dept\_dl and create\<close>

datatype link_outcome =
    Not_attempted
  | Added
  | Already_member
  | Link_failed int
  | Link_exception exn

text \<open>
  Lines 155-191, the \<^verbatim>\<open>try\<close> block: the credentials are read (three of them, unchecked),
  a token is asked for and the member is appended; \<^verbatim>\<open>except Exception\<close> logs whatever
  was raised.
\<close>

definition link_member ::
  "remote \<Rightarrow> config \<Rightarrow> string \<Rightarrow> string \<Rightarrow> call list \<times> link_outcome"
where
  "link_member R cfg dl_id user_id =
     (let tenant = azure_tenant_id cfg; client = azure_client_id cfg;
          secret = azure_client_secret cfg;
          c1 = Call (Token_request tenant client secret) None
      in case token_endpoint R tenant client secret of
           Raises \<Rightarrow> ([c1], Link_exception RequestException)
         | Reply status b \<Rightarrow>
             (case b of
                Unreadable \<Rightarrow> ([c1], Link_exception BodyError)
              | Json token \<Rightarrow>
                  (let c2 = Call (Member_request token dl_id user_id) None
                   in case member_add R token dl_id user_id of
                        Raises \<Rightarrow> ([c1, c2], Link_exception RequestException)
                      | Reply status2 b2 \<Rightarrow>
                          ([c1, c2],
                           if status2 = 204 then Added
                           else if status2 = 400 then Already_member
                           else Link_failed status2))))"

text \<open>
  \<^verbatim>\<open>dept.create_dl()\<close> is not defined in the two files; it is the parameter \<open>create_dl\<close>,
  which gives the department as the call leaves it, or the exception it raises. The call
  stands outside the \<^verbatim>\<open>try\<close> block, so its exception reaches the caller (\<open>Inl\<close>).
\<close>

definition add_to_dept_dl ::
  "(department \<Rightarrow> exn + department) \<Rightarrow> remote \<Rightarrow> config \<Rightarrow> 'a employee_scheme
     \<Rightarrow> exn + ('a employee_scheme \<times> call list \<times> link_outcome)"
where
  "add_to_dept_dl create_dl R cfg emp =
     (case department_id emp of
        None \<Rightarrow> Inr (emp, [], Not_attempted)
      | Some dept0 \<Rightarrow>
          if \<not> truthy (azure_user_id emp) then Inr (emp, [], Not_attempted)
          else
            (case (if \<not> truthy (azure_dl_id dept0) then create_dl dept0 else Inr dept0) of
               Inl e \<Rightarrow> Inl e
             | Inr dept \<Rightarrow>
                 if truthy (azure_dl_id dept)
                 then (case link_member R cfg (py_format (azure_dl_id dept))
                              (py_format (azure_user_id emp)) of
                         (calls, out) \<Rightarrow> Inr (emp\<lparr>department_id := Some dept\<rparr>, calls, out))
                 else Inr (emp\<lparr>department_id := Some dept\<rparr>, [], Not_attempted)))"

text \<open>
  Lines 14-26, the hook \<^verbatim>\<open>create\<close>; \<open>emp\<close> is the record \<^verbatim>\<open>super().create(vals)\<close> made.
\<close>

definition create ::
  "(department \<Rightarrow> exn + department) \<Rightarrow> remote \<Rightarrow> config \<Rightarrow> 'a employee_scheme
     \<Rightarrow> exn + ('a employee_scheme \<times> call list \<times> outcome option \<times> link_outcome)"
where
  "create create_dl R cfg emp =
     (if emp_name emp \<noteq> []
      then (case create_azure_email R cfg emp of
              (emp1, calls1, out) \<Rightarrow>
                if department_id emp1 \<noteq> None \<and> truthy (azure_user_id emp1)
                then (case add_to_dept_dl create_dl R cfg emp1 of
                        Inl e \<Rightarrow> Inl e
                      | Inr (emp2, calls2, linked) \<Rightarrow>
                          Inr (emp2, calls1 @ calls2, Some out, linked))
                else Inr (emp1, calls1, Some out, Not_attempted))
      else Inr (emp, [], None, Not_attempted))"

section \<open>hr\_department.py: action\_sync\_dl\_from\_azure\<close>

datatype sync_outcome =
    Sync_credentials_missing
  | Sync_token_missing
  | Sync_linked "string option"
  | Sync_not_found
  | Sync_error exn

text \<open>
  One search, lines 65-70 and again 77-81: \<^verbatim>\<open>groups\<close> is the \<^verbatim>\<open>value\<close> list of a 200
  response and stays empty on any other status.
\<close>

definition search_groups :: "remote \<Rightarrow> string option \<Rightarrow> string \<Rightarrow> exn + group list" where
  "search_groups R token expected_dl_email =
     (case group_search R token expected_dl_email of
        Raises \<Rightarrow> Inl RequestException
      | Reply status b \<Rightarrow>
          if status = 200
          then (case b of Unreadable \<Rightarrow> Inl BodyError | Json groups \<Rightarrow> Inr groups)
          else Inr [])"

definition dl_email :: "string \<Rightarrow> string \<Rightarrow> string" where
  "dl_email dept_name_form domain = ''DL_'' @ dept_name_form @ ''@'' @ domain"

text \<open>Lines 55-81: the upper form first, the lower form if nothing was found and it differs.\<close>

definition find_groups ::
  "remote \<Rightarrow> string option \<Rightarrow> string \<Rightarrow> string \<Rightarrow> string \<Rightarrow> call list \<times> (exn + group list)"
where
  "find_groups R token dept_name_upper dept_name_lower domain =
     (let c1 = Call (Search_request token (dl_email dept_name_upper domain)) (Some 30)
      in case search_groups R token (dl_email dept_name_upper domain) of
           Inl e \<Rightarrow> ([c1], Inl e)
         | Inr groups \<Rightarrow>
             if groups = [] \<and> dept_name_upper \<noteq> dept_name_lower
             then (let c2 = Call (Search_request token (dl_email dept_name_lower domain)) (Some 30)
                   in case search_groups R token (dl_email dept_name_lower domain) of
                        Inl e \<Rightarrow> ([c1, c2], Inl e)
                      | Inr groups2 \<Rightarrow> ([c1, c2], Inr groups2))
             else ([c1], Inr groups))"

definition upper_form :: "string \<Rightarrow> string" where
  "upper_form name = replace_amp (replace_space name)"

definition lower_form :: "string \<Rightarrow> string" where
  "lower_form name = replace_amp (replace_space (py_lower name))"

definition action_sync_dl_from_azure ::
  "remote \<Rightarrow> config \<Rightarrow> department \<Rightarrow> department \<times> call list \<times> sync_outcome"
where
  "action_sync_dl_from_azure R cfg dept =
     (let tenant = azure_tenant_id cfg; client = azure_client_id cfg;
          secret = azure_client_secret cfg; domain = azure_domain cfg
      in if \<not> (truthy tenant \<and> truthy client \<and> truthy secret \<and> truthy domain)
         then (dept, [], Sync_credentials_missing)
         else
           (let c = Call (Token_request tenant client secret) (Some 30)
            in case token_endpoint R tenant client secret of
                 Raises \<Rightarrow> (dept, [c], Sync_error RequestException)
               | Reply status b \<Rightarrow>
                   (case b of
                      Unreadable \<Rightarrow> (dept, [c], Sync_error BodyError)
                    | Json token \<Rightarrow>
                        if \<not> truthy token then (dept, [c], Sync_token_missing)
                        else
                          (case find_groups R token (upper_form (dept_name dept))
                                  (lower_form (dept_name dept)) (py_format domain) of
                             (calls, Inl e) \<Rightarrow> (dept, c # calls, Sync_error e)
                           | (calls, Inr groups) \<Rightarrow>
                               (case groups of
                                  [] \<Rightarrow> (dept, c # calls, Sync_not_found)
                                | g # rest \<Rightarrow>
                                    (dept\<lparr>azure_dl_email := mail g, azure_dl_id := group_id g\<rparr>,
                                     c # calls, Sync_linked (mail g)))))))"

section \<open>A directory to run the model against, and example records\<close>

text \<open>
  \<open>directory present\<close> answers a lookup with 200 for the addresses of \<open>present\<close> and with
  404 for every other one; \<open>all_taken\<close> answers 200 to every lookup. \<open>mock_remote\<close> is a
  remote with the given lookup whose other endpoints succeed: a token, a 201 carrying the
  id of the created account, an empty search, a 204.
\<close>

definition directory :: "string list \<Rightarrow> string option \<Rightarrow> string \<Rightarrow> unit reply" where
  "directory present token addr =
     Reply (if addr \<in> set present then 200 else 404) (Json ())"

definition all_taken :: "string option \<Rightarrow> string \<Rightarrow> unit reply" where
  "all_taken token addr = Reply 200 (Json ())"

definition mock_remote :: "(string option \<Rightarrow> string \<Rightarrow> unit reply) \<Rightarrow> remote" where
  "mock_remote lookup =
     \<lparr>token_endpoint = (\<lambda>tenant client secret. Reply 200 (Json (Some ''token''))),
      user_lookup = lookup,
      user_create = (\<lambda>token p. Reply 201 (Json \<lparr>resp_id = Some ''user-id'', resp_error = Missing\<rparr>)),
      group_search = (\<lambda>token m. Reply 200 (Json [])),
      member_add = (\<lambda>token g u. Reply 204 (Json ()))\<rparr>"

text \<open>
  The addresses of the base \<^verbatim>\<open>lalith.kumar\<close> and of its suffixes 2 to 99: the directory of
  99 conflicts.
\<close>

definition ninety_nine_taken :: "string list" where
  "ninety_nine_taken = map (candidate ''lalith.kumar'' ''techcarrot.ae'') [1..<100]"

definition example_config :: config where
  "example_config =
     \<lparr>azure_tenant_id = Some ''tenant'', azure_client_id = Some ''client'',
      azure_client_secret = Some ''secret'', azure_domain = Some ''techcarrot.ae''\<rparr>"

definition example_employee :: employee where
  "example_employee =
     \<lparr>emp_name = ''Lalith Kumar'', department_id = None, azure_user_id = None,
      azure_email = None, work_email = None\<rparr>"

text \<open>
  A department that is already linked to a group, an employee of it before provisioning
  (\<open>staffed_employee\<close>) and after it (\<open>member_employee\<close>), a configuration store with
  none of the four keys, and a \<^verbatim>\<open>create_dl\<close> that changes nothing.
\<close>

definition linked_department :: department where
  "linked_department =
     \<lparr>dept_name = ''Sales'', azure_dl_email = Some ''DL_Sales@techcarrot.ae'',
      azure_dl_id = Some ''old-id''\<rparr>"

definition staffed_employee :: employee where
  "staffed_employee =
     \<lparr>emp_name = ''Lalith Kumar'', department_id = Some linked_department,
      azure_user_id = None, azure_email = None, work_email = None\<rparr>"

definition member_employee :: employee where
  "member_employee =
     \<lparr>emp_name = ''Lalith Kumar'', department_id = Some linked_department,
      azure_user_id = Some ''user-id'', azure_email = Some ''lalith.kumar@techcarrot.ae'',
      work_email = Some ''lalith.kumar@techcarrot.ae''\<rparr>"

definition empty_config :: config where
  "empty_config =
     \<lparr>azure_tenant_id = None, azure_client_id = None,
      azure_client_secret = None, azure_domain = None\<rparr>"

definition create_dl_noop :: "department \<Rightarrow> exn + department" where
  "create_dl_noop dept = Inr dept"

text \<open>
  A directory that holds one group, under the lower-form address of the department
  \<^verbatim>\<open>Sales\<close> only; two departments without a link; and a remote that answers 400 to the
  membership append, as the directory does for an account that is a member already.
\<close>

definition sales_group :: group where
  "sales_group = \<lparr>mail = Some ''DL_sales@techcarrot.ae'', group_id = Some ''new-id''\<rparr>"

definition lower_only_search :: "string option \<Rightarrow> string \<Rightarrow> (group list) reply" where
  "lower_only_search token m =
     (if m = ''DL_sales@techcarrot.ae'' then Reply 200 (Json [sales_group])
      else Reply 200 (Json []))"

definition lower_only_remote :: remote where
  "lower_only_remote = (mock_remote (directory []))\<lparr>group_search := lower_only_search\<rparr>"

definition sales_department :: department where
  "sales_department = \<lparr>dept_name = ''Sales'', azure_dl_email = None, azure_dl_id = None\<rparr>"

definition ops_department :: department where
  "ops_department = \<lparr>dept_name = ''ops'', azure_dl_email = None, azure_dl_id = None\<rparr>"

definition already_member_remote :: remote where
  "already_member_remote =
     (mock_remote (directory []))\<lparr>member_add := (\<lambda>token g u. Reply 400 (Json ()))\<rparr>"



section \<open>Properties of the string primitives\<close>

lemma of_char_shift: "n \<le> 222 \<Longrightarrow> (of_char (char_of (n + 32 :: nat)) :: nat) = n + 32"
  by simp

lemma isspace_lower_char: "py_isspace (lower_char c) = py_isspace c"
proof (cases "(65 \<le> (of_char c::nat) \<and> (of_char c::nat) \<le> 90)
    \<or> (192 \<le> (of_char c::nat) \<and> (of_char c::nat) \<le> 214)
    \<or> (216 \<le> (of_char c::nat) \<and> (of_char c::nat) \<le> 222)")
  case True
  then have le: "(of_char c::nat) \<le> 222" by arith
  have lc: "lower_char c = char_of ((of_char c::nat) + 32)"
    using True by (simp add: lower_char_def)
  have "(of_char (lower_char c) :: nat) = of_char c + 32"
    unfolding lc using le by (rule of_char_shift)
  then show ?thesis
    using True unfolding py_isspace_def Let_def by arith
next
  case False
  then have "lower_char c = c"
    unfolding lower_char_def Let_def by (rule if_not_P)
  then show ?thesis by simp
qed

lemma split_scan_lower:
  "split_scan (map lower_char s) (map lower_char w) = map (map lower_char) (split_scan s w)"
proof (induction s arbitrary: w)
  case Nil
  then show ?case by simp
next
  case (Cons c cs)
  have nil: "split_scan (map lower_char cs) [] = map (map lower_char) (split_scan cs [])"
    using Cons.IH [of "[]"] by simp
  have app: "split_scan (map lower_char cs) (map lower_char w @ [lower_char c])
      = map (map lower_char) (split_scan cs (w @ [c]))"
    using Cons.IH [of "w @ [c]"] by simp
  show ?case
    by (simp add: isspace_lower_char nil app)
qed

lemma py_split_lower: "py_split (py_lower s) = map py_lower (py_split s)"
proof -
  have eq: "py_lower = map lower_char"
    by (rule ext) (simp add: py_lower_def)
  have "split_scan (map lower_char s) [] = map (map lower_char) (split_scan s [])"
    using split_scan_lower [of s "[]"] by simp
  then show ?thesis
    unfolding py_split_def eq .
qed

lemma split_scan_leading: "split_scan (dropWhile py_isspace s) [] = split_scan s []"
  by (induction s) simp_all

lemma split_scan_spaces:
  "list_all py_isspace t \<Longrightarrow> split_scan t w = (if w = [] then [] else [w])"
  by (induction t arbitrary: w) simp_all

lemma split_scan_trailing:
  "list_all py_isspace t \<Longrightarrow> split_scan (s @ t) w = split_scan s w"
  by (induction s arbitrary: w) (simp_all add: split_scan_spaces)

lemma py_split_strip: "py_split (py_strip s) = py_split s"
proof -
  define u where "u = dropWhile py_isspace s"
  define t where "t = rev (takeWhile py_isspace (rev u))"
  have sp: "list_all py_isspace t"
    unfolding t_def list_all_iff by (auto dest: set_takeWhileD)
  have "py_strip s @ t = rev (takeWhile py_isspace (rev u) @ dropWhile py_isspace (rev u))"
    unfolding py_strip_def t_def u_def by (simp only: rev_append)
  also have "\<dots> = u"
    by (simp only: takeWhile_dropWhile_id rev_rev_ident)
  finally have u: "py_strip s @ t = u" .
  have "split_scan (py_strip s) [] = split_scan (py_strip s @ t) []"
    using split_scan_trailing [OF sp] by simp
  also have "\<dots> = split_scan u []"
    using u by simp
  also have "\<dots> = split_scan s []"
    unfolding u_def by (rule split_scan_leading)
  finally show ?thesis
    by (simp add: py_split_def)
qed

lemma parts_of_name: "py_split (py_lower (py_strip name)) = map py_lower (py_split name)"
  by (simp add: py_split_lower py_split_strip)

section \<open>Decimal rendering and the candidates of the loop\<close>

lemma of_char_digit: "d < 10 \<Longrightarrow> (of_char (digit_char d) :: nat) = 48 + d"
  by (simp add: digit_char_def)

lemma digit_not_at: "d < 10 \<Longrightarrow> digit_char d \<noteq> CHR ''@''"
proof
  assume d: "d < 10" and eq: "digit_char d = CHR ''@''"
  have "(of_char (digit_char d) :: nat) = 64"
    unfolding eq by simp
  with of_char_digit [OF d] d show False by simp
qed

lemma py_str_no_at: "CHR ''@'' \<notin> set (py_str n)"
proof (induction n rule: py_str.induct)
  case (1 n)
  show ?case
  proof (cases "n < 10")
    case True
    then show ?thesis
      using digit_not_at [of n] by (subst py_str.simps) auto
  next
    case False
    have "n mod 10 < 10" by simp
    then have "digit_char (n mod 10) \<noteq> CHR ''@''" by (rule digit_not_at)
    with False 1 show ?thesis
      by (subst py_str.simps) auto
  qed
qed

lemma py_str_not_Nil: "py_str n \<noteq> []"
  by (subst py_str.simps) simp

lemma digits_value_snoc: "digits_value (s @ [c]) = 10 * digits_value s + (of_char c - 48)"
  by (simp add: digits_value_def)

lemma digits_value_py_str: "digits_value (py_str n) = n"
proof (induction n rule: py_str.induct)
  case (1 n)
  show ?case
  proof (cases "n < 10")
    case True
    then have "py_str n = [digit_char n]" by (subst py_str.simps) simp
    then show ?thesis
      using of_char_digit [OF True] by (simp add: digits_value_def)
  next
    case False
    have m: "n mod 10 < 10" by simp
    have "py_str n = py_str (n div 10) @ [digit_char (n mod 10)]"
      using False by (subst py_str.simps) simp
    then have "digits_value (py_str n) = 10 * (n div 10) + n mod 10"
      using 1 [OF False] of_char_digit [OF m] by (simp add: digits_value_snoc)
    then show ?thesis by simp
  qed
qed

lemma py_str_inj: "py_str i = py_str j \<Longrightarrow> i = j"
  by (metis digits_value_py_str)

lemma takeWhile_py_str:
  "takeWhile (\<lambda>c. c \<noteq> CHR ''@'') (py_str n @ ''@'' @ d) = py_str n"
proof -
  have "\<And>x. x \<in> set (py_str n) \<Longrightarrow> x \<noteq> CHR ''@''"
    using py_str_no_at [of n] by auto
  then have "takeWhile (\<lambda>c. c \<noteq> CHR ''@'') (py_str n @ ''@'' @ d)
      = py_str n @ takeWhile (\<lambda>c. c \<noteq> CHR ''@'') (''@'' @ d)"
    by (rule takeWhile_append2)
  then show ?thesis by simp
qed

lemma candidate_inj:
  assumes "candidate base domain i = candidate base domain j" "1 \<le> i" "1 \<le> j"
  shows "i = j"
proof (cases "i = 1")
  case True
  show ?thesis
  proof (cases "j = 1")
    case True
    with \<open>i = 1\<close> show ?thesis by simp
  next
    case False
    with True assms(1) have "''@'' @ domain = py_str j @ ''@'' @ domain"
      by (simp add: candidate_def base_email_def)
    then have "takeWhile (\<lambda>c. c \<noteq> CHR ''@'') (''@'' @ domain)
        = takeWhile (\<lambda>c. c \<noteq> CHR ''@'') (py_str j @ ''@'' @ domain)"
      by simp
    then have "[] = py_str j"
      unfolding takeWhile_py_str by simp
    then show ?thesis using py_str_not_Nil [of j] by simp
  qed
next
  case False
  show ?thesis
  proof (cases "j = 1")
    case True
    with False assms(1) have "py_str i @ ''@'' @ domain = ''@'' @ domain"
      by (simp add: candidate_def base_email_def)
    then have "takeWhile (\<lambda>c. c \<noteq> CHR ''@'') (py_str i @ ''@'' @ domain)
        = takeWhile (\<lambda>c. c \<noteq> CHR ''@'') (''@'' @ domain)"
      by simp
    then have "py_str i = []"
      unfolding takeWhile_py_str by simp
    then show ?thesis using py_str_not_Nil [of i] by simp
  next
    case j: False
    with False assms(1) have "py_str i @ ''@'' @ domain = py_str j @ ''@'' @ domain"
      by (simp add: candidate_def)
    then have "takeWhile (\<lambda>c. c \<noteq> CHR ''@'') (py_str i @ ''@'' @ domain)
        = takeWhile (\<lambda>c. c \<noteq> CHR ''@'') (py_str j @ ''@'' @ domain)"
      by simp
    then have "py_str i = py_str j"
      unfolding takeWhile_py_str .
    then show ?thesis by (rule py_str_inj)
  qed
qed

text \<open>
  C3. For a display name with two or more whitespace-separated parts the derived base is
  the lowercased first part, a dot and the lowercased last part; for a name of one part
  it is the lowercased part, a dot and the lowercased part again. The candidate address
  is the base, an at sign and the domain; nothing else is done to the name.
\<close>

theorem derive_base_first_dot_last:
  "(2 \<le> length (py_split name) \<longrightarrow>
      derive_base name
        = Inr (py_lower (hd (py_split name)) @ ''.'' @ py_lower (last (py_split name))))
   \<and> (py_split name = [p] \<longrightarrow> derive_base name = Inr (py_lower p @ ''.'' @ py_lower p))
   \<and> base_email base domain = base @ ''@'' @ domain"
proof (intro conjI impI)
  assume two: "2 \<le> length (py_split name)"
  then obtain a b rest where parts: "py_split name = a # b # rest"
    by (cases "py_split name"; cases "tl (py_split name)") auto
  show "derive_base name
        = Inr (py_lower (hd (py_split name)) @ ''.'' @ py_lower (last (py_split name)))"
    by (simp add: derive_base_def parts_of_name parts last_map)
next
  assume "py_split name = [p]"
  then show "derive_base name = Inr (py_lower p @ ''.'' @ py_lower p)"
    by (simp add: derive_base_def parts_of_name)
next
  show "base_email base domain = base @ ''@'' @ domain"
    by (simp add: base_email_def)
qed

theorem derive_base_first_dot_last_witness:
  "2 \<le> length (py_split ''Lalith  Kumar'')
   \<and> derive_base ''Lalith  Kumar'' = Inr ''lalith.kumar''
   \<and> py_split ''Cher'' = [''Cher'']
   \<and> derive_base ''Cher'' = Inr ''cher.cher''"
proof -
  have s2: "py_split ''Lalith  Kumar'' = [''Lalith'', ''Kumar'']"
    by code_simp
  have s1: "py_split ''Cher'' = [''Cher'']"
    by code_simp
  have l2: "2 \<le> length (py_split ''Lalith  Kumar'')"
    by (simp add: s2)
  have lo: "py_lower ''Lalith'' = ''lalith''" "py_lower ''Kumar'' = ''kumar''"
    "py_lower ''Cher'' = ''cher''"
    by code_simp+
  have a: "derive_base ''Lalith  Kumar''
      = Inr (py_lower (hd (py_split ''Lalith  Kumar'')) @ ''.''
             @ py_lower (last (py_split ''Lalith  Kumar'')))"
    using derive_base_first_dot_last [of "''Lalith  Kumar''"] l2 by blast
  have b: "derive_base ''Cher'' = Inr (py_lower ''Cher'' @ ''.'' @ py_lower ''Cher'')"
    using derive_base_first_dot_last [of "''Cher''" "''Cher''"] s1 by blast
  show ?thesis
    using a b l2 s1 by (simp add: s2 lo)
qed

section \<open>The probing loop\<close>

lemma probe_calls_are_lookups:
  "c \<in> set (fst (probe R tok base domain count ue))
   \<Longrightarrow> \<exists>a. c = Call (Lookup_request tok a) (Some 30)"
proof (induction R tok base domain count ue rule: probe.induct)
  case (1 R token base domain count unique_email)
  show ?case
    using "1.prems" "1.IH"
    by (subst (asm) probe.simps) (auto split: if_splits reply.splits prod.splits)
qed

lemma probe_stop_found:
  assumes "count < 100" "user_lookup R tok ue = Reply 404 b"
  shows "probe R tok base domain count ue = ([Call (Lookup_request tok ue) (Some 30)], Inr ue)"
  using assms by (subst probe.simps) simp

lemma probe_stop_cap:
  "probe R tok base domain 100 ue = ([], Inr ue)"
  by (subst probe.simps) simp

lemma probe_step_present:
  assumes "count < 100" "user_lookup R tok ue = Reply 200 b"
  shows "probe R tok base domain count ue
    = (Call (Lookup_request tok ue) (Some 30)
         # fst (probe R tok base domain (Suc count) (base @ py_str (Suc count) @ ''@'' @ domain)),
       snd (probe R tok base domain (Suc count) (base @ py_str (Suc count) @ ''@'' @ domain)))"
  using assms by (subst probe.simps) (simp split: prod.splits)

lemma candidate_Suc:
  "1 \<le> count \<Longrightarrow> candidate base domain (Suc count) = base @ py_str (Suc count) @ ''@'' @ domain"
  by (simp add: candidate_def)

lemma probe_present_run:
  assumes "1 \<le> count" "count \<le> k" "k \<le> 100"
    and "\<And>i. count \<le> i \<Longrightarrow> i < k \<Longrightarrow> \<exists>b. user_lookup R tok (candidate base domain i) = Reply 200 b"
  shows "probe R tok base domain count (candidate base domain count)
    = (map (\<lambda>i. Call (Lookup_request tok (candidate base domain i)) (Some 30)) [count..<k]
         @ fst (probe R tok base domain k (candidate base domain k)),
       snd (probe R tok base domain k (candidate base domain k)))"
  using assms
proof (induction "k - count" arbitrary: count)
  case 0
  then have "count = k" by simp
  then show ?case by simp
next
  case (Suc d)
  then have lt: "count < k" by simp
  then have c100: "count < 100" using Suc.prems by simp
  obtain b where b: "user_lookup R tok (candidate base domain count) = Reply 200 b"
    using Suc.prems(4) [of count] lt by auto
  have d: "d = k - Suc count" using Suc.hyps(2) by simp
  have ih: "probe R tok base domain (Suc count) (candidate base domain (Suc count))
    = (map (\<lambda>i. Call (Lookup_request tok (candidate base domain i)) (Some 30)) [Suc count..<k]
         @ fst (probe R tok base domain k (candidate base domain k)),
       snd (probe R tok base domain k (candidate base domain k)))"
  proof (rule Suc.hyps(1) [OF d])
    show "1 \<le> Suc count" by simp
    show "Suc count \<le> k" using lt by simp
    show "k \<le> 100" using Suc.prems by simp
    show "\<exists>b. user_lookup R tok (candidate base domain i) = Reply 200 b"
      if "Suc count \<le> i" "i < k" for i
      using Suc.prems(4) [of i] that by simp
  qed
  have up: "[count..<k] = count # [Suc count..<k]"
    using lt by (simp add: upt_conv_Cons)
  show ?case
    unfolding probe_step_present [OF c100 b] candidate_Suc [OF Suc.prems(1), symmetric] ih up
    by simp
qed

lemma directory_present:
  "1 \<le> i \<Longrightarrow> i \<le> N \<Longrightarrow>
   directory (map (candidate base domain) [1..<Suc N]) tok (candidate base domain i) = Reply 200 (Json ())"
proof -
  assume "1 \<le> i" "i \<le> N"
  then have "i \<in> set [1..<Suc N]" by (simp only: set_upt atLeastLessThan_iff) arith
  then have "candidate base domain i \<in> candidate base domain ` set [1..<Suc N]"
    by (rule imageI)
  then show ?thesis
    by (simp only: directory_def set_map if_True)
qed

lemma directory_absent:
  "directory (map (candidate base domain) [1..<Suc N]) tok (candidate base domain (Suc N))
     = Reply 404 (Json ())"
proof -
  have "candidate base domain (Suc N) \<notin> set (map (candidate base domain) [1..<Suc N])"
  proof
    assume "candidate base domain (Suc N) \<in> set (map (candidate base domain) [1..<Suc N])"
    then obtain i where i: "1 \<le> i" "i < Suc N" "candidate base domain (Suc N) = candidate base domain i"
      by auto
    from candidate_inj [OF i(3)] i(1) have "Suc N = i" by simp
    with i(2) show False by simp
  qed
  then show ?thesis by (simp add: directory_def)
qed

text \<open>
  Below the cap the loop does what is asked of it. For N at most 98: when exactly the base
  address and the addresses with the suffixes 2 to N are present in the directory (none
  for N = 0, the base alone for N = 1), the loop looks up exactly N + 1 candidates in
  order, the base first and then the suffixes 2, 3, ..., N + 1, and ends on candidate
  N + 1, the first whose lookup is answered 404.
\<close>

theorem probe_under_conflicts:
  assumes "N \<le> 98"
    and "user_lookup R = directory (map (candidate base domain) [1..<Suc N])"
  shows "probe R tok base domain 1 (base_email base domain)
      = (map (\<lambda>i. Call (Lookup_request tok (candidate base domain i)) (Some 30)) [1..<N + 2],
         Inr (candidate base domain (N + 1)))
    \<and> user_lookup R tok (candidate base domain (N + 1)) = Reply 404 (Json ())
    \<and> (\<forall>i. 1 \<le> i \<and> i \<le> N \<longrightarrow> user_lookup R tok (candidate base domain i) = Reply 200 (Json ()))"
proof (intro conjI allI impI)
  have first: "base_email base domain = candidate base domain 1"
    by (simp add: candidate_def)
  have absent: "user_lookup R tok (candidate base domain (Suc N)) = Reply 404 (Json ())"
    unfolding assms(2) by (rule directory_absent)
  have present: "\<exists>b. user_lookup R tok (candidate base domain i) = Reply 200 b"
    if "1 \<le> i" "i < Suc N" for i
    unfolding assms(2) using directory_present [of i N base domain tok] that by simp
  have run: "probe R tok base domain 1 (candidate base domain 1)
    = (map (\<lambda>i. Call (Lookup_request tok (candidate base domain i)) (Some 30)) [1..<Suc N]
         @ fst (probe R tok base domain (Suc N) (candidate base domain (Suc N))),
       snd (probe R tok base domain (Suc N) (candidate base domain (Suc N))))"
    using assms(1) present by (intro probe_present_run) simp_all
  have stop: "probe R tok base domain (Suc N) (candidate base domain (Suc N))
    = ([Call (Lookup_request tok (candidate base domain (Suc N))) (Some 30)],
       Inr (candidate base domain (Suc N)))"
    using assms(1) absent by (intro probe_stop_found) simp_all
  show "probe R tok base domain 1 (base_email base domain)
      = (map (\<lambda>i. Call (Lookup_request tok (candidate base domain i)) (Some 30)) [1..<N + 2],
         Inr (candidate base domain (N + 1)))"
    unfolding first run stop by simp
  show "user_lookup R tok (candidate base domain (N + 1)) = Reply 404 (Json ())"
    using absent by simp
  show "user_lookup R tok (candidate base domain i) = Reply 200 (Json ())"
    if "1 \<le> i \<and> i \<le> N" for i
    unfolding assms(2) using directory_present [of i N base domain tok] that by simp
qed

lemma probe_all_present:
  assumes "\<And>i. 1 \<le> i \<Longrightarrow> i < 100 \<Longrightarrow> \<exists>b. user_lookup R tok (candidate base domain i) = Reply 200 b"
  shows "probe R tok base domain 1 (base_email base domain)
      = (map (\<lambda>i. Call (Lookup_request tok (candidate base domain i)) (Some 30)) [1..<100],
         Inr (candidate base domain 100))"
proof -
  have first: "base_email base domain = candidate base domain 1"
    by (simp add: candidate_def)
  have run: "probe R tok base domain 1 (candidate base domain 1)
    = (map (\<lambda>i. Call (Lookup_request tok (candidate base domain i)) (Some 30)) [1..<100]
         @ fst (probe R tok base domain 100 (candidate base domain 100)),
       snd (probe R tok base domain 100 (candidate base domain 100)))"
    using assms by (intro probe_present_run) simp_all
  show ?thesis
    unfolding first run probe_stop_cap by simp
qed

lemma cand100: "candidate ''lalith.kumar'' ''techcarrot.ae'' 100 = ''lalith.kumar100@techcarrot.ae''"
  by code_simp

text \<open>
  C4. The claim: with the base and the suffixes 2 to N present, the loop looks up N + 1
  candidates in order and ends on the first one whose lookup is answered not-found. The
  code at N = 99, which the cap of 99 suffixed attempts (counter 2 to 100) covers: the
  loop issues 99 lookups, not 100, and ends on the address with the suffix 100 without
  looking it up; that lookup would have been answered 404.
\<close>

theorem probe_99_conflicts_skips_last_lookup:
  "probe (mock_remote (directory ninety_nine_taken)) (Some ''token'')
      ''lalith.kumar'' ''techcarrot.ae'' 1 (base_email ''lalith.kumar'' ''techcarrot.ae'')
     = (map (\<lambda>i. Call (Lookup_request (Some ''token'')
                        (candidate ''lalith.kumar'' ''techcarrot.ae'' i)) (Some 30)) [1..<100],
        Inr ''lalith.kumar100@techcarrot.ae'')
   \<and> length (fst (probe (mock_remote (directory ninety_nine_taken)) (Some ''token'')
      ''lalith.kumar'' ''techcarrot.ae'' 1 (base_email ''lalith.kumar'' ''techcarrot.ae''))) = 99
   \<and> candidate ''lalith.kumar'' ''techcarrot.ae'' 100 = ''lalith.kumar100@techcarrot.ae''
   \<and> user_lookup (mock_remote (directory ninety_nine_taken)) (Some ''token'')
        ''lalith.kumar100@techcarrot.ae'' = Reply 404 (Json ())
   \<and> Call (Lookup_request (Some ''token'') ''lalith.kumar100@techcarrot.ae'') (Some 30)
       \<notin> set (fst (probe (mock_remote (directory ninety_nine_taken)) (Some ''token'')
      ''lalith.kumar'' ''techcarrot.ae'' 1 (base_email ''lalith.kumar'' ''techcarrot.ae'')))"
proof -
  let ?R = "mock_remote (directory ninety_nine_taken)"
  let ?cs = "map (\<lambda>i. Call (Lookup_request (Some ''token'')
                (candidate ''lalith.kumar'' ''techcarrot.ae'' i)) (Some 30)) [1..<100]"
  have taken: "ninety_nine_taken = map (candidate ''lalith.kumar'' ''techcarrot.ae'') [1..<Suc 99]"
    by (simp add: ninety_nine_taken_def)
  have look: "user_lookup ?R = directory (map (candidate ''lalith.kumar'' ''techcarrot.ae'') [1..<Suc 99])"
    by (simp add: mock_remote_def taken)
  have present: "\<exists>b. user_lookup ?R (Some ''token'') (candidate ''lalith.kumar'' ''techcarrot.ae'' i)
      = Reply 200 b" if "1 \<le> i" "i < 100" for i
  proof -
    have "i \<le> 99" using that by simp
    from directory_present [OF that(1) this] show ?thesis
      unfolding look by blast
  qed
  have run: "probe ?R (Some ''token'') ''lalith.kumar'' ''techcarrot.ae'' 1
      (base_email ''lalith.kumar'' ''techcarrot.ae'')
    = (?cs, Inr (candidate ''lalith.kumar'' ''techcarrot.ae'' 100))"
    using present by (rule probe_all_present)
  have "user_lookup ?R (Some ''token'') (candidate ''lalith.kumar'' ''techcarrot.ae'' (Suc 99))
    = Reply 404 (Json ())"
    unfolding look by (rule directory_absent)
  then have absent: "user_lookup ?R (Some ''token'') (candidate ''lalith.kumar'' ''techcarrot.ae'' 100)
    = Reply 404 (Json ())"
    by simp
  have notin: "Call (Lookup_request (Some ''token'') (candidate ''lalith.kumar'' ''techcarrot.ae'' 100)) (Some 30)
      \<notin> set ?cs"
  proof
    assume "Call (Lookup_request (Some ''token'') (candidate ''lalith.kumar'' ''techcarrot.ae'' 100)) (Some 30)
      \<in> set ?cs"
    then obtain i where i: "1 \<le> i" "i < 100"
      "candidate ''lalith.kumar'' ''techcarrot.ae'' 100 = candidate ''lalith.kumar'' ''techcarrot.ae'' i"
      by auto
    from candidate_inj [OF i(3)] i(1) have "100 = i" by simp
    with i(2) show False by simp
  qed
  show ?thesis
    using notin absent unfolding run cand100 by simp
qed

theorem probe_under_conflicts_witness:
  "probe (mock_remote (directory (map (candidate ''lalith.kumar'' ''techcarrot.ae'') [1..<Suc 1])))
      (Some ''token'') ''lalith.kumar'' ''techcarrot.ae'' 1
      (base_email ''lalith.kumar'' ''techcarrot.ae'')
    = ([Call (Lookup_request (Some ''token'') ''lalith.kumar@techcarrot.ae'') (Some 30),
        Call (Lookup_request (Some ''token'') ''lalith.kumar2@techcarrot.ae'') (Some 30)],
       Inr ''lalith.kumar2@techcarrot.ae'')"
proof -
  have c1: "candidate ''lalith.kumar'' ''techcarrot.ae'' (Suc 0) = ''lalith.kumar@techcarrot.ae''"
    by code_simp
  have c2: "candidate ''lalith.kumar'' ''techcarrot.ae'' (Suc (Suc 0)) = ''lalith.kumar2@techcarrot.ae''"
    by code_simp
  have l: "user_lookup (mock_remote (directory (map (candidate ''lalith.kumar'' ''techcarrot.ae'') [1..<Suc 1])))
    = directory (map (candidate ''lalith.kumar'' ''techcarrot.ae'') [1..<Suc 1])"
    by (simp add: mock_remote_def)
  have u: "[1..<1 + 2] = [1, 2::nat]"
    by (simp add: upt_rec)
  show ?thesis
    using probe_under_conflicts [of 1 "mock_remote (directory (map (candidate ''lalith.kumar'' ''techcarrot.ae'') [1..<Suc 1]))"
        "''lalith.kumar''" "''techcarrot.ae''" "Some ''token''", OF _ l]
    by (simp add: u c1 c2)
qed


section \<open>Account creation and the writes on the employee record\<close>

lemma new_user_principal: "userPrincipalName (new_user n ue) = ue"
  by (simp add: new_user_def)

lemma save_result_calls:
  "fst (snd (save_result R tok ue emp))
     = [Call (Create_request tok (new_user (emp_name emp) ue)) (Some 30)]"
  by (simp add: save_result_def Let_def split: reply.splits body.splits)

lemma save_result_created:
  assumes "user_create R tok (new_user (emp_name emp) ue) = Reply 201 (Json user_data)"
  shows "save_result R tok ue emp
     = (emp\<lparr>azure_email := Some ue, work_email := Some ue\<rparr>,
        [Call (Create_request tok (new_user (emp_name emp) ue)) (Some 30)], Created ue)"
  using assms by (simp add: save_result_def Let_def)

lemma save_result_frame:
  "save_result R tok ue emp = (emp', calls, out) \<Longrightarrow>
     (out = Created ue \<and> emp' = emp\<lparr>azure_email := Some ue, work_email := Some ue\<rparr>)
     \<or> ((\<forall>a. out \<noteq> Created a) \<and> emp' = emp)"
  by (auto simp: save_result_def Let_def split: reply.splits body.splits if_splits)

lemma create_azure_email_cases:
  assumes "create_azure_email R cfg emp = (emp', calls, out)"
  shows "(emp' = emp \<and> (\<forall>tok p t. Call (Create_request tok p) t \<notin> set calls))
    \<or> (\<exists>c tok pcalls ue. calls = c # pcalls @ [Call (Create_request tok (new_user (emp_name emp) ue)) (Some 30)]
          \<and> (\<forall>tok' p t. c \<noteq> Call (Create_request tok' p) t)
          \<and> (\<forall>tok' p t. Call (Create_request tok' p) t \<notin> set pcalls)
          \<and> save_result R tok ue emp = (emp', [Call (Create_request tok (new_user (emp_name emp) ue)) (Some 30)], out))"
proof -
  let ?c = "Call (Token_request (azure_tenant_id cfg) (azure_client_id cfg) (azure_client_secret cfg)) (Some 30)"
  have nolook: "Call (Create_request tok' p) t \<notin> set cs"
    if "probe R tok b d n u = (cs, r)" for tok' p t tok b d n u cs r
    using probe_calls_are_lookups [of "Call (Create_request tok' p) t" R tok b d n u] that by auto
  show ?thesis
  proof (cases "\<exists>base st token pcalls ue. derive_base (emp_name emp) = Inr base
      \<and> truthy (azure_tenant_id cfg) \<and> truthy (azure_client_id cfg)
      \<and> truthy (azure_client_secret cfg) \<and> truthy (azure_domain cfg)
      \<and> token_endpoint R (azure_tenant_id cfg) (azure_client_id cfg) (azure_client_secret cfg) = Reply st (Json token)
      \<and> \<not> (400 \<le> st \<and> st < 600) \<and> truthy token
      \<and> probe R token base (py_format (azure_domain cfg)) 1 (base_email base (py_format (azure_domain cfg))) = (pcalls, Inr ue)")
    case True
    then obtain base st token pcalls ue where h:
      "derive_base (emp_name emp) = Inr base"
      "truthy (azure_tenant_id cfg)" "truthy (azure_client_id cfg)"
      "truthy (azure_client_secret cfg)" "truthy (azure_domain cfg)"
      "token_endpoint R (azure_tenant_id cfg) (azure_client_id cfg) (azure_client_secret cfg) = Reply st (Json token)"
      "\<not> (400 \<le> st \<and> st < 600)" "truthy token"
      "probe R token base (py_format (azure_domain cfg)) 1 (base_email base (py_format (azure_domain cfg))) = (pcalls, Inr ue)"
      by blast
    obtain e1 c1 o1 where sr: "save_result R token ue emp = (e1, c1, o1)"
      by (cases "save_result R token ue emp") auto
    have c1: "c1 = [Call (Create_request token (new_user (emp_name emp) ue)) (Some 30)]"
      using save_result_calls [of R token ue emp] sr by simp
    have res: "create_azure_email R cfg emp = (e1, ?c # pcalls @ c1, o1)"
      using h sr by (auto simp: create_azure_email_def Let_def)
    have np: "Call (Create_request tok' p) t \<notin> set pcalls" for tok' p t
      using nolook [OF h(9)] by simp
    show ?thesis
      using res assms sr c1 np by auto
  next
    case False
    have "emp' = emp \<and> (\<forall>tok p t. Call (Create_request tok p) t \<notin> set calls)"
      using assms False
      by (auto simp: create_azure_email_def Let_def dest: nolook
          split: sum.splits reply.splits body.splits if_splits prod.splits)
    then show ?thesis by blast
  qed
qed

text \<open>
  C10. When the creation call of a run is answered 201 (with the JSON of the created
  account), the run writes the resolved address, the principal name sent in that call, to
  \<^verbatim>\<open>azure_email\<close> and to \<^verbatim>\<open>work_email\<close>, and every other field of the employee record,
  the fields of the extension slot too, is as it was.
\<close>

theorem created_writes_both_emails:
  assumes run: "create_azure_email R cfg emp = (emp', calls, out)"
    and issued: "Call (Create_request token p) t \<in> set calls"
    and ok: "user_create R token p = Reply 201 (Json user_data)"
  shows "emp' = emp\<lparr>azure_email := Some (userPrincipalName p),
                      work_email := Some (userPrincipalName p)\<rparr>
    \<and> out = Created (userPrincipalName p)"
proof -
  from create_azure_email_cases [OF run] issued
  obtain c tok pcalls ue where h:
    "calls = c # pcalls @ [Call (Create_request tok (new_user (emp_name emp) ue)) (Some 30)]"
    "\<forall>tok' p t. c \<noteq> Call (Create_request tok' p) t"
    "\<forall>tok' p t. Call (Create_request tok' p) t \<notin> set pcalls"
    "save_result R tok ue emp = (emp', [Call (Create_request tok (new_user (emp_name emp) ue)) (Some 30)], out)"
    by blast
  from issued h(1,2,3) have eq: "token = tok" "p = new_user (emp_name emp) ue"
    by auto
  from ok eq have "user_create R tok (new_user (emp_name emp) ue) = Reply 201 (Json user_data)"
    by simp
  from save_result_created [OF this] h(4) show ?thesis
    by (simp add: eq new_user_principal)
qed

lemma create_azure_email_run:
  assumes "truthy (azure_tenant_id cfg)" "truthy (azure_client_id cfg)"
    "truthy (azure_client_secret cfg)" "truthy (azure_domain cfg)"
    and "derive_base (emp_name emp) = Inr base"
    and "token_endpoint R (azure_tenant_id cfg) (azure_client_id cfg) (azure_client_secret cfg)
          = Reply 200 (Json token)"
    and "truthy token"
    and "probe R token base (py_format (azure_domain cfg)) 1
           (base_email base (py_format (azure_domain cfg))) = (pcalls, Inr ue)"
    and "user_create R token (new_user (emp_name emp) ue) = Reply 201 (Json user_data)"
  shows "create_azure_email R cfg emp
    = (emp\<lparr>azure_email := Some ue, work_email := Some ue\<rparr>,
       Call (Token_request (azure_tenant_id cfg) (azure_client_id cfg) (azure_client_secret cfg)) (Some 30)
         # pcalls @ [Call (Create_request token (new_user (emp_name emp) ue)) (Some 30)],
       Created ue)"
  using assms save_result_created [OF assms(9)]
  by (simp add: create_azure_email_def Let_def)

lemma base_lalith: "derive_base ''Lalith Kumar'' = Inr ''lalith.kumar''"
  by code_simp

lemma free_probe:
  "probe (mock_remote (directory [])) tok base domain 1 (base_email base domain)
     = ([Call (Lookup_request tok (base_email base domain)) (Some 30)], Inr (base_email base domain))"
  by (rule probe_stop_found [where b = "Json ()"]) (simp_all add: mock_remote_def directory_def)

lemma free_run:
  assumes "emp_name emp = ''Lalith Kumar''"
  shows "create_azure_email (mock_remote (directory [])) example_config emp
    = (emp\<lparr>azure_email := Some ''lalith.kumar@techcarrot.ae'',
            work_email := Some ''lalith.kumar@techcarrot.ae''\<rparr>,
       [Call (Token_request (Some ''tenant'') (Some ''client'') (Some ''secret'')) (Some 30),
        Call (Lookup_request (Some ''token'') ''lalith.kumar@techcarrot.ae'') (Some 30),
        Call (Create_request (Some ''token'')
               (new_user ''Lalith Kumar'' ''lalith.kumar@techcarrot.ae'')) (Some 30)],
       Created ''lalith.kumar@techcarrot.ae'')"
proof -
  have be: "base_email ''lalith.kumar'' ''techcarrot.ae'' = ''lalith.kumar@techcarrot.ae''"
    by (simp add: base_email_def)
  have "create_azure_email (mock_remote (directory [])) example_config emp
    = (emp\<lparr>azure_email := Some ''lalith.kumar@techcarrot.ae'',
            work_email := Some ''lalith.kumar@techcarrot.ae''\<rparr>,
       Call (Token_request (azure_tenant_id example_config) (azure_client_id example_config)
              (azure_client_secret example_config)) (Some 30)
         # [Call (Lookup_request (Some ''token'') ''lalith.kumar@techcarrot.ae'') (Some 30)]
         @ [Call (Create_request (Some ''token'')
               (new_user (emp_name emp) ''lalith.kumar@techcarrot.ae'')) (Some 30)],
       Created ''lalith.kumar@techcarrot.ae'')"
  proof (rule create_azure_email_run [where base = "''lalith.kumar''"])
    show "derive_base (emp_name emp) = Inr ''lalith.kumar''"
      unfolding assms by (rule base_lalith)
    show "probe (mock_remote (directory [])) (Some ''token'') ''lalith.kumar''
        (py_format (azure_domain example_config))
        1 (base_email ''lalith.kumar'' (py_format (azure_domain example_config)))
      = ([Call (Lookup_request (Some ''token'') ''lalith.kumar@techcarrot.ae'') (Some 30)],
         Inr ''lalith.kumar@techcarrot.ae'')"
      using free_probe [of "Some ''token''" "''lalith.kumar''" "''techcarrot.ae''"]
      by (simp add: example_config_def be)
    show "user_create (mock_remote (directory [])) (Some ''token'')
        (new_user (emp_name emp) ''lalith.kumar@techcarrot.ae'')
      = Reply 201 (Json \<lparr>resp_id = Some ''user-id'', resp_error = Missing\<rparr>)"
      by (simp add: mock_remote_def)
  qed (simp_all add: example_config_def mock_remote_def)
  then show ?thesis
    by (simp add: example_config_def assms)
qed

theorem created_writes_both_emails_witness:
  "fst (create_azure_email (mock_remote (directory [])) example_config example_employee)
     = example_employee\<lparr>azure_email := Some ''lalith.kumar@techcarrot.ae'',
                        work_email := Some ''lalith.kumar@techcarrot.ae''\<rparr>
   \<and> snd (snd (create_azure_email (mock_remote (directory [])) example_config example_employee))
     = Created ''lalith.kumar@techcarrot.ae''"
proof -
  have n: "emp_name example_employee = ''Lalith Kumar''"
    by (simp add: example_employee_def)
  obtain e cs out where run:
    "create_azure_email (mock_remote (directory [])) example_config example_employee = (e, cs, out)"
    by (cases "create_azure_email (mock_remote (directory [])) example_config example_employee") auto
  have issued: "Call (Create_request (Some ''token'')
       (new_user ''Lalith Kumar'' ''lalith.kumar@techcarrot.ae'')) (Some 30) \<in> set cs"
    using run free_run [OF n] by auto
  have ok: "user_create (mock_remote (directory [])) (Some ''token'')
       (new_user ''Lalith Kumar'' ''lalith.kumar@techcarrot.ae'')
     = Reply 201 (Json \<lparr>resp_id = Some ''user-id'', resp_error = Missing\<rparr>)"
    by (simp add: mock_remote_def)
  show ?thesis
    using created_writes_both_emails [OF run issued ok]
    by (simp add: run new_user_principal)
qed

text \<open>
  C1. The claim: when the base and every suffixed candidate are present, no creation call
  is issued, and a creation call is only issued for a candidate whose lookup was answered
  not-found. The code, run against a directory that answers 200 to every lookup: after 99
  lookups (the base and the suffixes 2 to 99) the loop ends, and the creation call is
  issued for the suffix 100, an address that was never looked up.
\<close>

theorem exhausted_probe_still_creates:
  "create_azure_email (mock_remote all_taken) example_config example_employee
     = (example_employee\<lparr>azure_email := Some ''lalith.kumar100@techcarrot.ae'',
                         work_email := Some ''lalith.kumar100@techcarrot.ae''\<rparr>,
        Call (Token_request (Some ''tenant'') (Some ''client'') (Some ''secret'')) (Some 30)
          # map (\<lambda>i. Call (Lookup_request (Some ''token'')
                             (candidate ''lalith.kumar'' ''techcarrot.ae'' i)) (Some 30)) [1..<100]
          @ [Call (Create_request (Some ''token'')
                    (new_user ''Lalith Kumar'' ''lalith.kumar100@techcarrot.ae'')) (Some 30)],
        Created ''lalith.kumar100@techcarrot.ae'')
   \<and> candidate ''lalith.kumar'' ''techcarrot.ae'' 100 = ''lalith.kumar100@techcarrot.ae''
   \<and> Call (Lookup_request (Some ''token'') ''lalith.kumar100@techcarrot.ae'') (Some 30)
       \<notin> set (fst (snd (create_azure_email (mock_remote all_taken) example_config example_employee)))"
proof -
  let ?R = "mock_remote all_taken"
  let ?cs = "map (\<lambda>i. Call (Lookup_request (Some ''token'')
                (candidate ''lalith.kumar'' ''techcarrot.ae'' i)) (Some 30)) [1..<100]"
  have pr: "probe ?R (Some ''token'') ''lalith.kumar'' ''techcarrot.ae'' 1
      (base_email ''lalith.kumar'' ''techcarrot.ae'')
    = (?cs, Inr (candidate ''lalith.kumar'' ''techcarrot.ae'' 100))"
    by (rule probe_all_present) (simp add: mock_remote_def all_taken_def)
  have run: "create_azure_email ?R example_config example_employee
    = (example_employee\<lparr>azure_email := Some ''lalith.kumar100@techcarrot.ae'',
            work_email := Some ''lalith.kumar100@techcarrot.ae''\<rparr>,
       Call (Token_request (azure_tenant_id example_config) (azure_client_id example_config)
              (azure_client_secret example_config)) (Some 30)
         # ?cs
         @ [Call (Create_request (Some ''token'')
               (new_user (emp_name example_employee) ''lalith.kumar100@techcarrot.ae'')) (Some 30)],
       Created ''lalith.kumar100@techcarrot.ae'')"
  proof (rule create_azure_email_run [where base = "''lalith.kumar''"])
    show "derive_base (emp_name example_employee) = Inr ''lalith.kumar''"
      using base_lalith by (simp add: example_employee_def)
    show "probe ?R (Some ''token'') ''lalith.kumar'' (py_format (azure_domain example_config)) 1
        (base_email ''lalith.kumar'' (py_format (azure_domain example_config)))
      = (?cs, Inr ''lalith.kumar100@techcarrot.ae'')"
      using pr by (simp add: example_config_def cand100)
    show "user_create ?R (Some ''token'')
        (new_user (emp_name example_employee) ''lalith.kumar100@techcarrot.ae'')
      = Reply 201 (Json \<lparr>resp_id = Some ''user-id'', resp_error = Missing\<rparr>)"
      by (simp add: mock_remote_def)
  qed (simp_all add: example_config_def mock_remote_def)
  have notin: "Call (Lookup_request (Some ''token'') (candidate ''lalith.kumar'' ''techcarrot.ae'' 100)) (Some 30)
      \<notin> set ?cs"
  proof
    assume "Call (Lookup_request (Some ''token'') (candidate ''lalith.kumar'' ''techcarrot.ae'' 100)) (Some 30)
      \<in> set ?cs"
    then obtain i where i: "1 \<le> i" "i < 100"
      "candidate ''lalith.kumar'' ''techcarrot.ae'' 100 = candidate ''lalith.kumar'' ''techcarrot.ae'' i"
      by auto
    from candidate_inj [OF i(3)] i(1) have "100 = i" by simp
    with i(2) show False by simp
  qed
  show ?thesis
    using notin unfolding run cand100
    by (simp add: example_config_def example_employee_def)
qed

text \<open>
  C2. The claim: \<^verbatim>\<open>azure_email\<close> and \<^verbatim>\<open>azure_user_id\<close> are written together on a 201. The
  code, run by the hook \<^verbatim>\<open>create\<close> for an employee of a linked department against a
  directory without conflicts: the 201 response carries the id of the account,
  \<^verbatim>\<open>azure_email\<close> is written and \<^verbatim>\<open>azure_user_id\<close> stays unset, so the hook does not
  attempt the group link either.
\<close>

theorem created_account_reference_not_stored:
  "create create_dl_noop (mock_remote (directory [])) example_config staffed_employee
     = Inr (staffed_employee\<lparr>azure_email := Some ''lalith.kumar@techcarrot.ae'',
                             work_email := Some ''lalith.kumar@techcarrot.ae''\<rparr>,
            [Call (Token_request (Some ''tenant'') (Some ''client'') (Some ''secret'')) (Some 30),
             Call (Lookup_request (Some ''token'') ''lalith.kumar@techcarrot.ae'') (Some 30),
             Call (Create_request (Some ''token'')
                    (new_user ''Lalith Kumar'' ''lalith.kumar@techcarrot.ae'')) (Some 30)],
            Some (Created ''lalith.kumar@techcarrot.ae''), Not_attempted)
   \<and> user_create (mock_remote (directory [])) (Some ''token'')
        (new_user ''Lalith Kumar'' ''lalith.kumar@techcarrot.ae'')
     = Reply 201 (Json \<lparr>resp_id = Some ''user-id'', resp_error = Missing\<rparr>)
   \<and> azure_user_id (staffed_employee\<lparr>azure_email := Some ''lalith.kumar@techcarrot.ae'',
                                      work_email := Some ''lalith.kumar@techcarrot.ae''\<rparr>) = None"
proof -
  have n: "emp_name staffed_employee = ''Lalith Kumar''"
    by (simp add: staffed_employee_def)
  show ?thesis
    by (simp add: create_def free_run [OF n] n)
       (simp add: staffed_employee_def mock_remote_def)
qed


section \<open>Group resolution\<close>

lemma find_groups_calls:
  "fst (find_groups R token upper lower domain)
     = Call (Search_request token (dl_email upper domain)) (Some 30)
       # (if search_groups R token (dl_email upper domain) = Inr [] \<and> upper \<noteq> lower
          then [Call (Search_request token (dl_email lower domain)) (Some 30)] else [])"
  by (auto simp: find_groups_def Let_def split: sum.splits)

lemma action_sync_calls:
  assumes "truthy (azure_tenant_id cfg)" "truthy (azure_client_id cfg)"
    "truthy (azure_client_secret cfg)" "truthy (azure_domain cfg)"
    and "token_endpoint R (azure_tenant_id cfg) (azure_client_id cfg) (azure_client_secret cfg)
          = Reply st (Json token)"
    and "truthy token"
  shows "fst (snd (action_sync_dl_from_azure R cfg dept))
     = Call (Token_request (azure_tenant_id cfg) (azure_client_id cfg) (azure_client_secret cfg)) (Some 30)
       # fst (find_groups R token (upper_form (dept_name dept)) (lower_form (dept_name dept))
               (py_format (azure_domain cfg)))"
  using assms
  by (simp add: action_sync_dl_from_azure_def Let_def split: prod.splits sum.splits list.splits)

lemma action_sync_linked:
  assumes "truthy (azure_tenant_id cfg)" "truthy (azure_client_id cfg)"
    "truthy (azure_client_secret cfg)" "truthy (azure_domain cfg)"
    and "token_endpoint R (azure_tenant_id cfg) (azure_client_id cfg) (azure_client_secret cfg)
          = Reply st (Json token)"
    and "truthy token"
    and "find_groups R token (upper_form (dept_name dept)) (lower_form (dept_name dept))
               (py_format (azure_domain cfg)) = (calls, Inr (g # rest))"
  shows "action_sync_dl_from_azure R cfg dept
     = (dept\<lparr>azure_dl_email := mail g, azure_dl_id := group_id g\<rparr>,
        Call (Token_request (azure_tenant_id cfg) (azure_client_id cfg) (azure_client_secret cfg)) (Some 30)
          # calls,
        Sync_linked (mail g))"
  using assms by (simp add: action_sync_dl_from_azure_def Let_def)

lemma find_groups_lower_hit:
  assumes "upper \<noteq> lower"
    and "group_search R token (dl_email upper domain) = Reply 200 (Json [])"
    and "group_search R token (dl_email lower domain) = Reply 200 (Json (g # rest))"
  shows "find_groups R token upper lower domain
     = ([Call (Search_request token (dl_email upper domain)) (Some 30),
         Call (Search_request token (dl_email lower domain)) (Some 30)], Inr (g # rest))"
  using assms by (simp add: find_groups_def search_groups_def Let_def)

text \<open>
  C5. Once the credentials are there and a token was obtained, group resolution searches
  the upper-form address (\<^verbatim>\<open>DL_\<close>, the upper form, an at sign, the domain) first, and
  the lower-form address only
  if that search raised nothing and gave no group and the two forms differ; there is no
  other search. So when the two forms are the same there is exactly one search, and when
  they differ, the upper-form search finds nothing and the lower-form search finds a
  group, there are exactly two, the second one hitting, and the unit is linked to its
  first group.
\<close>

theorem group_resolution_order:
  assumes "truthy (azure_tenant_id cfg)" "truthy (azure_client_id cfg)"
    "truthy (azure_client_secret cfg)" "truthy (azure_domain cfg)"
    and "token_endpoint R (azure_tenant_id cfg) (azure_client_id cfg) (azure_client_secret cfg)
          = Reply st (Json token)"
    and "truthy token"
  shows "fst (snd (action_sync_dl_from_azure R cfg dept))
     = Call (Token_request (azure_tenant_id cfg) (azure_client_id cfg) (azure_client_secret cfg)) (Some 30)
       # Call (Search_request token
                (dl_email (upper_form (dept_name dept)) (py_format (azure_domain cfg)))) (Some 30)
       # (if search_groups R token
                (dl_email (upper_form (dept_name dept)) (py_format (azure_domain cfg))) = Inr []
             \<and> upper_form (dept_name dept) \<noteq> lower_form (dept_name dept)
          then [Call (Search_request token
                  (dl_email (lower_form (dept_name dept)) (py_format (azure_domain cfg)))) (Some 30)]
          else [])
    \<and> (upper_form (dept_name dept) = lower_form (dept_name dept) \<longrightarrow>
       fst (snd (action_sync_dl_from_azure R cfg dept))
       = [Call (Token_request (azure_tenant_id cfg) (azure_client_id cfg) (azure_client_secret cfg)) (Some 30),
          Call (Search_request token
                (dl_email (upper_form (dept_name dept)) (py_format (azure_domain cfg)))) (Some 30)])
    \<and> (upper_form (dept_name dept) \<noteq> lower_form (dept_name dept)
       \<and> group_search R token
            (dl_email (upper_form (dept_name dept)) (py_format (azure_domain cfg))) = Reply 200 (Json [])
       \<and> group_search R token
            (dl_email (lower_form (dept_name dept)) (py_format (azure_domain cfg))) = Reply 200 (Json (g # rest))
       \<longrightarrow>
       action_sync_dl_from_azure R cfg dept
       = (dept\<lparr>azure_dl_email := mail g, azure_dl_id := group_id g\<rparr>,
          [Call (Token_request (azure_tenant_id cfg) (azure_client_id cfg) (azure_client_secret cfg)) (Some 30),
           Call (Search_request token
                (dl_email (upper_form (dept_name dept)) (py_format (azure_domain cfg)))) (Some 30),
           Call (Search_request token
                (dl_email (lower_form (dept_name dept)) (py_format (azure_domain cfg)))) (Some 30)],
          Sync_linked (mail g)))"
proof (intro conjI impI)
  show calls: "fst (snd (action_sync_dl_from_azure R cfg dept))
     = Call (Token_request (azure_tenant_id cfg) (azure_client_id cfg) (azure_client_secret cfg)) (Some 30)
       # Call (Search_request token
                (dl_email (upper_form (dept_name dept)) (py_format (azure_domain cfg)))) (Some 30)
       # (if search_groups R token
                (dl_email (upper_form (dept_name dept)) (py_format (azure_domain cfg))) = Inr []
             \<and> upper_form (dept_name dept) \<noteq> lower_form (dept_name dept)
          then [Call (Search_request token
                  (dl_email (lower_form (dept_name dept)) (py_format (azure_domain cfg)))) (Some 30)]
          else [])"
    unfolding action_sync_calls [OF assms] find_groups_calls ..
  show "fst (snd (action_sync_dl_from_azure R cfg dept))
       = [Call (Token_request (azure_tenant_id cfg) (azure_client_id cfg) (azure_client_secret cfg)) (Some 30),
          Call (Search_request token
                (dl_email (upper_form (dept_name dept)) (py_format (azure_domain cfg)))) (Some 30)]"
    if "upper_form (dept_name dept) = lower_form (dept_name dept)"
    using calls that by simp
  show "action_sync_dl_from_azure R cfg dept
       = (dept\<lparr>azure_dl_email := mail g, azure_dl_id := group_id g\<rparr>,
          [Call (Token_request (azure_tenant_id cfg) (azure_client_id cfg) (azure_client_secret cfg)) (Some 30),
           Call (Search_request token
                (dl_email (upper_form (dept_name dept)) (py_format (azure_domain cfg)))) (Some 30),
           Call (Search_request token
                (dl_email (lower_form (dept_name dept)) (py_format (azure_domain cfg)))) (Some 30)],
          Sync_linked (mail g))"
    if h: "upper_form (dept_name dept) \<noteq> lower_form (dept_name dept)
       \<and> group_search R token
            (dl_email (upper_form (dept_name dept)) (py_format (azure_domain cfg))) = Reply 200 (Json [])
       \<and> group_search R token
            (dl_email (lower_form (dept_name dept)) (py_format (azure_domain cfg))) = Reply 200 (Json (g # rest))"
  proof -
    have fg: "find_groups R token (upper_form (dept_name dept)) (lower_form (dept_name dept))
        (py_format (azure_domain cfg))
      = ([Call (Search_request token
                (dl_email (upper_form (dept_name dept)) (py_format (azure_domain cfg)))) (Some 30),
          Call (Search_request token
                (dl_email (lower_form (dept_name dept)) (py_format (azure_domain cfg)))) (Some 30)],
         Inr (g # rest))"
      using h by (intro find_groups_lower_hit) simp_all
    show ?thesis
      using action_sync_linked [OF assms fg] by simp
  qed
qed

lemma forms_sales: "upper_form ''Sales'' = ''Sales''" "lower_form ''Sales'' = ''sales''"
  by code_simp+

lemma forms_ops: "upper_form ''ops'' = ''ops''" "lower_form ''ops'' = ''ops''"
  by code_simp+


theorem group_resolution_order_witness:
  "action_sync_dl_from_azure lower_only_remote example_config sales_department
     = (sales_department\<lparr>azure_dl_email := Some ''DL_sales@techcarrot.ae'',
                           azure_dl_id := Some ''new-id''\<rparr>,
        [Call (Token_request (Some ''tenant'') (Some ''client'') (Some ''secret'')) (Some 30),
         Call (Search_request (Some ''token'') ''DL_Sales@techcarrot.ae'') (Some 30),
         Call (Search_request (Some ''token'') ''DL_sales@techcarrot.ae'') (Some 30)],
        Sync_linked (Some ''DL_sales@techcarrot.ae''))
   \<and> fst (snd (action_sync_dl_from_azure lower_only_remote example_config ops_department))
     = [Call (Token_request (Some ''tenant'') (Some ''client'') (Some ''secret'')) (Some 30),
        Call (Search_request (Some ''token'') ''DL_ops@techcarrot.ae'') (Some 30)]"
proof -
  have tok: "token_endpoint lower_only_remote (azure_tenant_id example_config)
      (azure_client_id example_config) (azure_client_secret example_config)
    = Reply 200 (Json (Some ''token''))"
    by (simp add: lower_only_remote_def mock_remote_def)
  have tr: "truthy (azure_tenant_id example_config)" "truthy (azure_client_id example_config)"
    "truthy (azure_client_secret example_config)" "truthy (azure_domain example_config)"
    "truthy (Some ''token'')"
    by (simp_all add: example_config_def)
  have gs: "group_search lower_only_remote = lower_only_search"
    by (simp add: lower_only_remote_def)
  have s: "dept_name sales_department = ''Sales''" "dept_name ops_department = ''ops''"
    "py_format (azure_domain example_config) = ''techcarrot.ae''"
    by (simp_all add: sales_department_def ops_department_def example_config_def)
  have sales: "upper_form ''Sales'' \<noteq> lower_form ''Sales''
       \<and> group_search lower_only_remote (Some ''token'')
            (dl_email (upper_form ''Sales'') ''techcarrot.ae'') = Reply 200 (Json [])
       \<and> group_search lower_only_remote (Some ''token'')
            (dl_email (lower_form ''Sales'') ''techcarrot.ae'') = Reply 200 (Json (sales_group # []))"
    by (simp add: gs forms_sales dl_email_def lower_only_search_def)
  have c: "azure_tenant_id example_config = Some ''tenant''"
    "azure_client_id example_config = Some ''client''"
    "azure_client_secret example_config = Some ''secret''"
    by (simp_all add: example_config_def)
  show ?thesis
    using group_resolution_order [OF tr(1-4) tok tr(5), of sales_department sales_group "[]"]
      group_resolution_order [OF tr(1-4) tok tr(5), of ops_department]
      sales
    by (simp add: s c forms_sales forms_ops dl_email_def sales_group_def)
qed

section \<open>Membership linking, credentials and timeouts\<close>

lemma link_member_outcome:
  assumes "link_member R cfg dl_id user_id = (calls, out)"
    and "Call (Member_request token g u) t \<in> set calls"
  shows "token_endpoint R (azure_tenant_id cfg) (azure_client_id cfg) (azure_client_secret cfg)
           \<noteq> Raises
     \<and> g = dl_id \<and> u = user_id \<and> t = None
     \<and> out = (case member_add R token g u of
                Raises \<Rightarrow> Link_exception RequestException
              | Reply status b \<Rightarrow>
                  if status = 204 then Added
                  else if status = 400 then Already_member
                  else Link_failed status)"
  using assms
  by (auto simp: link_member_def Let_def split: reply.splits body.splits if_splits)

lemma add_to_dept_dl_cases:
  assumes "add_to_dept_dl create_dl R cfg emp = Inr (emp', calls, out)"
  shows "(emp' = emp \<and> calls = [] \<and> out = Not_attempted)
    \<or> (\<exists>dept. emp' = emp\<lparr>department_id := Some dept\<rparr> \<and> calls = [] \<and> out = Not_attempted)
    \<or> (\<exists>dept. emp' = emp\<lparr>department_id := Some dept\<rparr>
          \<and> link_member R cfg (py_format (azure_dl_id dept)) (py_format (azure_user_id emp))
              = (calls, out))"
  using assms
  by (auto simp: add_to_dept_dl_def split: option.splits if_splits sum.splits prod.splits)

text \<open>
  C6. The add-member call never sends an error to the caller of \<^verbatim>\<open>_add_to_dept_dl\<close>: the
  only exception that function lets through is one raised by \<^verbatim>\<open>create_dl()\<close> for a
  department without a group, before anything is asked of the directory. Whenever the
  add-member call is issued, a 204 is reported as newly added, a 400 as already a member,
  any other status and a transport error are only logged; and the employee's name,
  account reference, addresses and other fields are left as they were.
\<close>

theorem add_member_never_raises:
  "(add_to_dept_dl create_dl R cfg emp = Inl e \<longrightarrow>
      (\<exists>dept. department_id emp = Some dept \<and> \<not> truthy (azure_dl_id dept)
         \<and> create_dl dept = Inl e))
   \<and> (add_to_dept_dl create_dl R cfg emp = Inr (emp', calls, out)
        \<and> Call (Member_request token dl_id user_id) t \<in> set calls \<longrightarrow>
      out = (case member_add R token dl_id user_id of
               Raises \<Rightarrow> Link_exception RequestException
             | Reply status b \<Rightarrow>
                 if status = 204 then Added
                 else if status = 400 then Already_member
                 else Link_failed status))
   \<and> (add_to_dept_dl create_dl R cfg emp = Inr (emp', calls, out) \<longrightarrow>
      emp_name emp' = emp_name emp \<and> azure_user_id emp' = azure_user_id emp
      \<and> azure_email emp' = azure_email emp \<and> work_email emp' = work_email emp
      \<and> employee.more emp' = employee.more emp)"
proof -
  have a: "add_to_dept_dl create_dl R cfg emp = Inl e \<longrightarrow>
      (\<exists>dept. department_id emp = Some dept \<and> \<not> truthy (azure_dl_id dept)
         \<and> create_dl dept = Inl e)"
    by (auto simp: add_to_dept_dl_def split: option.splits if_splits sum.splits prod.splits)
  have b: "add_to_dept_dl create_dl R cfg emp = Inr (emp', calls, out)
        \<and> Call (Member_request token dl_id user_id) t \<in> set calls \<longrightarrow>
      out = (case member_add R token dl_id user_id of
               Raises \<Rightarrow> Link_exception RequestException
             | Reply status b \<Rightarrow>
                 if status = 204 then Added
                 else if status = 400 then Already_member
                 else Link_failed status)"
  proof
    assume h: "add_to_dept_dl create_dl R cfg emp = Inr (emp', calls, out)
      \<and> Call (Member_request token dl_id user_id) t \<in> set calls"
    then have run: "add_to_dept_dl create_dl R cfg emp = Inr (emp', calls, out)"
      and issued: "Call (Member_request token dl_id user_id) t \<in> set calls"
      by simp_all
    from add_to_dept_dl_cases [OF run] issued
    have "\<exists>dept::department.
        link_member R cfg (py_format (azure_dl_id dept)) (py_format (azure_user_id emp))
        = (calls, out)"
      by auto
    then obtain dept :: department where "link_member R cfg (py_format (azure_dl_id dept))
        (py_format (azure_user_id emp)) = (calls, out)"
      by blast
    from link_member_outcome [OF this issued]
    show "out = (case member_add R token dl_id user_id of
                 Raises \<Rightarrow> Link_exception RequestException
               | Reply status b \<Rightarrow>
                   if status = 204 then Added
                   else if status = 400 then Already_member
                   else Link_failed status)"
      by simp
  qed
  have c: "add_to_dept_dl create_dl R cfg emp = Inr (emp', calls, out) \<longrightarrow>
      emp_name emp' = emp_name emp \<and> azure_user_id emp' = azure_user_id emp
      \<and> azure_email emp' = azure_email emp \<and> work_email emp' = work_email emp
      \<and> employee.more emp' = employee.more emp"
  proof
    assume run: "add_to_dept_dl create_dl R cfg emp = Inr (emp', calls, out)"
    from add_to_dept_dl_cases [OF run]
    show "emp_name emp' = emp_name emp \<and> azure_user_id emp' = azure_user_id emp
        \<and> azure_email emp' = azure_email emp \<and> work_email emp' = work_email emp
        \<and> employee.more emp' = employee.more emp"
      by auto
  qed
  show ?thesis
    by (intro conjI a b c)
qed

lemma member_run:
  assumes "token_endpoint R (azure_tenant_id cfg) (azure_client_id cfg) (azure_client_secret cfg)
      = Reply st (Json token)"
    and "member_add R token ''old-id'' ''user-id'' = Reply status b"
  shows "add_to_dept_dl create_dl R cfg member_employee
    = Inr (member_employee,
           [Call (Token_request (azure_tenant_id cfg) (azure_client_id cfg) (azure_client_secret cfg)) None,
            Call (Member_request token ''old-id'' ''user-id'') None],
           if status = 204 then Added else if status = 400 then Already_member
           else Link_failed status)"
  using assms
  by (simp add: add_to_dept_dl_def link_member_def Let_def member_employee_def
      linked_department_def)

theorem add_member_never_raises_witness:
  "add_to_dept_dl create_dl_noop already_member_remote example_config member_employee
     = Inr (member_employee,
            [Call (Token_request (Some ''tenant'') (Some ''client'') (Some ''secret'')) None,
             Call (Member_request (Some ''token'') ''old-id'' ''user-id'') None],
            Already_member)
   \<and> member_add already_member_remote (Some ''token'') ''old-id'' ''user-id'' = Reply 400 (Json ())"
proof -
  have tok: "token_endpoint already_member_remote (azure_tenant_id example_config)
      (azure_client_id example_config) (azure_client_secret example_config)
    = Reply 200 (Json (Some ''token''))"
    by (simp add: already_member_remote_def mock_remote_def)
  have m: "member_add already_member_remote (Some ''token'') ''old-id'' ''user-id''
    = Reply 400 (Json ())"
    by (simp add: already_member_remote_def)
  have run: "add_to_dept_dl create_dl_noop already_member_remote example_config member_employee
     = Inr (member_employee,
            [Call (Token_request (Some ''tenant'') (Some ''client'') (Some ''secret'')) None,
             Call (Member_request (Some ''token'') ''old-id'' ''user-id'') None],
            Already_member)"
    using member_run [OF tok m, of create_dl_noop] by (simp add: example_config_def)
  have "Already_member = (case member_add already_member_remote (Some ''token'') ''old-id'' ''user-id'' of
               Raises \<Rightarrow> Link_exception RequestException
             | Reply status b \<Rightarrow>
                 if status = 204 then Added
                 else if status = 400 then Already_member
                 else Link_failed status)"
    using add_member_never_raises [of create_dl_noop already_member_remote example_config
        member_employee _ member_employee
        "[Call (Token_request (Some ''tenant'') (Some ''client'') (Some ''secret'')) None,
          Call (Member_request (Some ''token'') ''old-id'' ''user-id'') None]"
        Already_member "Some ''token''" "''old-id''" "''user-id''" None]
      run
    by simp
  then show ?thesis
    using run m by simp
qed

text \<open>
  C7. The claim: with any of the four configuration values absent, every operation ends
  with the credentials-missing outcome before a network call. The code, with none of the
  four set: \<^verbatim>\<open>_create_azure_email\<close> and \<^verbatim>\<open>action_sync_dl_from_azure\<close> do so, but
  \<^verbatim>\<open>_add_to_dept_dl\<close> has no such check and issues the token call and the add-member
  call.
\<close>

theorem add_to_dept_dl_calls_without_credentials:
  "add_to_dept_dl create_dl_noop (mock_remote (directory [])) empty_config member_employee
     = Inr (member_employee,
            [Call (Token_request None None None) None,
             Call (Member_request (Some ''token'') ''old-id'' ''user-id'') None],
            Added)
   \<and> create_azure_email (mock_remote (directory [])) empty_config member_employee
     = (member_employee, [], Credentials_missing)
   \<and> action_sync_dl_from_azure (mock_remote (directory [])) empty_config linked_department
     = (linked_department, [], Sync_credentials_missing)"
proof -
  have tok: "token_endpoint (mock_remote (directory [])) (azure_tenant_id empty_config)
      (azure_client_id empty_config) (azure_client_secret empty_config)
    = Reply 200 (Json (Some ''token''))"
    by (simp add: mock_remote_def)
  have m: "member_add (mock_remote (directory [])) (Some ''token'') ''old-id'' ''user-id''
    = Reply 204 (Json ())"
    by (simp add: mock_remote_def)
  show ?thesis
    using member_run [OF tok m, of create_dl_noop]
    by (simp add: empty_config_def create_azure_email_def action_sync_dl_from_azure_def)
qed

text \<open>
  C8. The claim: every remote call carries a timeout of 30. The code: the two calls of
  \<^verbatim>\<open>_add_to_dept_dl\<close> (token acquisition and membership append) pass no timeout, while
  every call of the other two operations does (\<open>create_azure_email_timeouts\<close>,
  \<open>action_sync_timeouts\<close> below).
\<close>

theorem add_to_dept_dl_calls_without_timeout:
  "add_to_dept_dl create_dl_noop (mock_remote (directory [])) example_config member_employee
     = Inr (member_employee,
            [Call (Token_request (Some ''tenant'') (Some ''client'') (Some ''secret'')) None,
             Call (Member_request (Some ''token'') ''old-id'' ''user-id'') None],
            Added)
   \<and> map timeout
        [Call (Token_request (Some ''tenant'') (Some ''client'') (Some ''secret'')) None,
         Call (Member_request (Some ''token'') ''old-id'' ''user-id'') None]
     = [None, None]"
proof -
  have tok: "token_endpoint (mock_remote (directory [])) (azure_tenant_id example_config)
      (azure_client_id example_config) (azure_client_secret example_config)
    = Reply 200 (Json (Some ''token''))"
    by (simp add: mock_remote_def)
  have m: "member_add (mock_remote (directory [])) (Some ''token'') ''old-id'' ''user-id''
    = Reply 204 (Json ())"
    by (simp add: mock_remote_def)
  show ?thesis
    using member_run [OF tok m, of create_dl_noop]
    by (simp add: example_config_def)
qed

lemma probe_timeouts: "c \<in> set (fst (probe R tok base domain count ue)) \<Longrightarrow> timeout c = Some 30"
  using probe_calls_are_lookups [of c R tok base domain count ue] by auto

lemma create_azure_email_timeouts:
  assumes "c \<in> set (fst (snd (create_azure_email R cfg emp)))"
  shows "timeout c = Some 30"
proof -
  have p: "timeout c = Some 30" if "probe R tok b d n u = (cs, r)" "c \<in> set cs" for tok b d n u cs r
    using probe_timeouts [of c R tok b d n u] that by simp
  have s: "timeout c = Some 30" if "save_result R tok u emp = (e, cs, out)" "c \<in> set cs"
    for tok u e cs out
    using save_result_calls [of R tok u emp] that by auto
  show ?thesis
    using assms
    by (auto simp: create_azure_email_def Let_def dest: p s
        split: sum.splits reply.splits body.splits if_splits prod.splits)
qed

lemma action_sync_timeouts:
  assumes "c \<in> set (fst (snd (action_sync_dl_from_azure R cfg dept)))"
  shows "timeout c = Some 30"
  using assms
  by (auto simp: action_sync_dl_from_azure_def find_groups_def Let_def
      split: sum.splits reply.splits body.splits if_splits prod.splits list.splits)

section \<open>The link fields of a unit\<close>











section \<open>Further properties of the two operations\<close>

lemma probe_outcome_not_created:
  "snd (probe R tok base domain count ue) = Inl out \<Longrightarrow> out \<noteq> Created a"
proof (induction R tok base domain count ue rule: probe.induct)
  case (1 R token base domain count unique_email)
  show ?case
    using "1.prems" "1.IH"
    by (subst (asm) probe.simps) (auto split: if_splits reply.splits prod.splits)
qed

lemma save_result_record_effect:
  "fst (save_result R tok ue emp)
     = (case snd (snd (save_result R tok ue emp)) of
          Created a \<Rightarrow> emp\<lparr>azure_email := Some a, work_email := Some a\<rparr>
        | _ \<Rightarrow> emp)"
  by (simp add: save_result_def Let_def split: reply.splits body.splits)

text \<open>
  The whole effect of \<^verbatim>\<open>_create_azure_email\<close> on the employee record: a run that ends with
  the account created has written the address to \<^verbatim>\<open>azure_email\<close> and \<^verbatim>\<open>work_email\<close>,
  and a run that ends in any other way has written nothing. \<^verbatim>\<open>azure_user_id\<close> is written
  by no run.
\<close>

theorem create_azure_email_record_effect:
  "fst (create_azure_email R cfg emp)
     = (case snd (snd (create_azure_email R cfg emp)) of
          Created a \<Rightarrow> emp\<lparr>azure_email := Some a, work_email := Some a\<rparr>
        | _ \<Rightarrow> emp)"
proof -
  have p: "out \<noteq> Created a" if "probe R tok b d n u = (cs, Inl out)" for tok b d n u cs out a
    using probe_outcome_not_created [of R tok b d n u out a] that by simp
  have s: "e = (case out of Created a \<Rightarrow> emp\<lparr>azure_email := Some a, work_email := Some a\<rparr>
                | _ \<Rightarrow> emp)"
    if "save_result R tok u emp = (e, cs, out)" for tok u e cs out
    using save_result_record_effect [of R tok u emp] that by simp
  show ?thesis
    by (auto simp: create_azure_email_def Let_def dest: s dest!: p
        split: sum.splits reply.splits body.splits prod.splits outcome.splits)
qed

text \<open>
  Every call issued by \<^verbatim>\<open>_create_azure_email\<close> and by \<^verbatim>\<open>action_sync_dl_from_azure\<close>
  carries \<^verbatim>\<open>timeout=30\<close>.
\<close>

theorem sibling_calls_carry_timeout:
  "list_all (\<lambda>c. timeout c = Some 30) (fst (snd (create_azure_email R cfg emp)))
   \<and> list_all (\<lambda>c. timeout c = Some 30) (fst (snd (action_sync_dl_from_azure R cfg dept)))"
  using create_azure_email_timeouts [of _ R cfg emp] action_sync_timeouts [of _ R cfg dept]
  by (simp add: list_all_iff)


end
